theory Spec2Isabelle
  imports Main
begin

section \<open>Python values used by \<open>httpsig/verify.py\<close>\<close>

text \<open>
  Text is a list of characters with code points below 256; a byte string is a list of
  bytes, held in the same HOL type. \<open>pytext\<close> keeps the distinction that
  \<^verbatim>\<open>isinstance(x, six.string_types)\<close> tests.
\<close>

type_synonym bytes = string

datatype pytext = Str string | Bytes bytes

text \<open>
  The exceptions that leave the two classes of \<open>verify.py\<close>:
  \<^item> \<open>HttpSigException msg\<close>: \<^verbatim>\<open>raise HttpSigException(msg)\<close>;
  \<^item> \<open>RequiredHeaderException S\<close>: the plain
    \<^verbatim>\<open>raise Exception('{} is a required header(s)'.format(', '.join(S)))\<close>
    of \<open>HeaderVerifier.verify\<close>, where \<open>S\<close> is a Python set (the order in which
    \<open>join\<close> walks it is not fixed by the language, so the set itself is kept);
  \<^item> \<open>KeyError k\<close>: subscripting a dictionary at a key it does not have;
  \<^item> \<open>TypeError\<close>: subscripting a string with a string;
  \<^item> \<open>UnicodeEncodeError\<close>: \<^verbatim>\<open>s.encode("ascii")\<close> on a character above 127;
  \<^item> \<open>LibraryError msg\<close>: anything a collaborator outside \<open>verify.py\<close> raises
    (\<open>binascii.Error\<close> of \<open>base64.b64decode\<close>, a parser error, ...).
\<close>

datatype error =
    HttpSigException string
  | RequiredHeaderException "string set"
  | KeyError string
  | TypeError
  | UnicodeEncodeError
  | LibraryError string

text \<open>Sequencing of fallible steps: the first exception ends the computation.\<close>

definition bind :: "error + 'a \<Rightarrow> ('a \<Rightarrow> error + 'b) \<Rightarrow> error + 'b" where
  "bind r f = (case r of Inl e \<Rightarrow> Inl e | Inr x \<Rightarrow> f x)"

subsection \<open>\<open>str.lower\<close>, \<open>str.split(' ')\<close>, \<open>str.encode("ascii")\<close>\<close>

text \<open>
  \<open>str.lower\<close> on code points below 256: \<open>A\<close>..\<open>Z\<close> and the Latin-1 capitals
  (192..222 without the multiplication sign 215) move up by 32, every other character
  stays.
\<close>

definition lower_char :: "char \<Rightarrow> char" where
  "lower_char c =
     (let n = (of_char c :: nat)
      in if (65 \<le> n \<and> n \<le> 90) \<or> (192 \<le> n \<and> n \<le> 222 \<and> n \<noteq> 215)
         then char_of (n + 32) else c)"

definition lower :: "string \<Rightarrow> string" where
  "lower s = map lower_char s"

definition is_upper :: "char \<Rightarrow> bool" where
  "is_upper c = (lower_char c \<noteq> c)"

text \<open>
  \<^verbatim>\<open>s.split(' ')\<close>: cut at every single space; two spaces in a row give an empty
  piece, and the empty string gives \<open>['']\<close>.
\<close>

fun py_split :: "char \<Rightarrow> string \<Rightarrow> string list" where
  "py_split sep [] = [[]]"
| "py_split sep (c # cs) =
     (if c = sep then [] # py_split sep cs
      else (case py_split sep cs of
              [] \<Rightarrow> [[c]]
            | w # ws \<Rightarrow> (c # w) # ws))"

definition encode_ascii :: "string \<Rightarrow> error + bytes" where
  "encode_ascii s = (if \<forall>c \<in> set s. (of_char c :: nat) < 128 then Inr s else Inl UnicodeEncodeError)"

text \<open>
  Lines 26 to 29 of \<open>Verifier._verify\<close>:
  \<^verbatim>\<open>if isinstance(x, six.string_types): x = x.encode("ascii")\<close>
\<close>

fun to_bytes :: "pytext \<Rightarrow> error + bytes" where
  "to_bytes (Str s) = encode_ascii s"
| "to_bytes (Bytes b) = Inr b"

subsection \<open>The header container\<close>

text \<open>
  \<open>CaseInsensitiveDict\<close> is defined in \<open>httpsig/utils.py\<close>, which is not among the
  sources at hand; \<open>verify.py\<close> builds one from the caller's headers, subscripts it and
  calls \<open>get\<close> on it. A container is a finite map whose keys are lower-case.
\<close>

type_synonym cidict = "string \<rightharpoonup> string"

text \<open>
  Modelled from the spec: the constructor of \<open>CaseInsensitiveDict\<close> (\<open>utils.py\<close>, not at
  hand). The specification has a case-insensitive mapping from header name to value that
  normalises keys to a canonical case on insertion; of two names that differ in case
  only, the one inserted later stays.
\<close>

fun CaseInsensitiveDict :: "(string \<times> string) list \<Rightarrow> cidict" where
  "CaseInsensitiveDict [] = Map.empty"
| "CaseInsensitiveDict ((k, v) # kvs) = (\<lambda>x. case CaseInsensitiveDict kvs x of
       Some w \<Rightarrow> Some w
     | None \<Rightarrow> (if x = lower k then Some v else None))"

text \<open>
  Modelled from the spec: \<^verbatim>\<open>d[k]\<close> on a \<open>CaseInsensitiveDict\<close> (\<open>utils.py\<close>, not at
  hand). The specification normalises the key on lookup; an absent key raises
  \<open>KeyError\<close>, as subscripting a Python mapping does.
\<close>

definition getitem :: "cidict \<Rightarrow> string \<Rightarrow> error + string" where
  "getitem d k = (case d (lower k) of None \<Rightarrow> Inl (KeyError k) | Some v \<Rightarrow> Inr v)"

text \<open>
  Modelled from the spec: \<^verbatim>\<open>d.get(k, default)\<close> on a \<open>CaseInsensitiveDict\<close>
  (\<open>utils.py\<close>, not at hand): the same lookup, with the default for an absent key.
\<close>

definition get_default :: "cidict \<Rightarrow> string \<Rightarrow> string \<Rightarrow> string" where
  "get_default d k dflt = (case d (lower k) of None \<Rightarrow> dflt | Some v \<Rightarrow> v)"

section \<open>What \<open>verify.py\<close> takes from the rest of the package\<close>

text \<open>
  \<open>Verifier\<close> extends \<open>Signer\<close> (\<open>httpsig/sign.py\<close>), whose constructor sets the
  attributes that \<open>_verify\<close> reads. \<open>sign_algorithm\<close> is compared with the strings
  \<open>'rsa'\<close> and \<open>'hmac'\<close> and tested for being an instance of \<open>SignAlgorithm\<close>; such
  an instance is its \<open>verify(secret, data, signature)\<close> method. Any other object
  (\<open>None\<close> included) is \<open>OtherObject\<close>.
\<close>

datatype sign_alg =
    AlgName string
  | SignAlgorithm "bytes \<Rightarrow> bytes \<Rightarrow> bytes \<Rightarrow> error + bool"
  | OtherObject

text \<open>
  The attributes and methods of the \<open>Signer\<close> part of the object:
  \<^item> \<open>secret\<close>: \<^verbatim>\<open>self.secret\<close>;
  \<^item> \<open>sign_algorithm\<close>: \<^verbatim>\<open>self.sign_algorithm\<close>;
  \<^item> \<open>hash_of\<close>: \<^verbatim>\<open>h = self._hash.new(); h.update(data)\<close>, the hash object over \<open>data\<close>;
  \<^item> \<open>rsa_verify\<close>: \<^verbatim>\<open>self._rsa.verify(h, signature)\<close>;
  \<^item> \<open>sign_hmac\<close>: \<^verbatim>\<open>self._sign_hmac(data)\<close>.
\<close>

record verifier =
  secret :: bytes
  sign_algorithm :: sign_alg
  hash_of :: "bytes \<Rightarrow> error + bytes"
  rsa_verify :: "bytes \<Rightarrow> bytes \<Rightarrow> error + bool"
  sign_hmac :: "bytes \<Rightarrow> error + bytes"

text \<open>
  What a parser of \<open>utils.py\<close> hands back inside its result tuple: a string (the scheme)
  or a dictionary (the parameters).
\<close>

datatype pyobj = PyStr string | PyDict cidict

text \<open>
  The names \<open>verify.py\<close> imports and calls, taken as parameters because their
  definitions are outside the sources at hand:
  \<^item> \<open>DEFAULT_ALGORITHM\<close> (\<open>sign.py\<close>);
  \<^item> \<open>parse_authorization_header\<close>, \<open>parse_signature_header\<close>, \<open>generate_message\<close>,
    \<open>ct_bytes_compare\<close> (\<open>utils.py\<close>); the first returns a tuple, here a list;
  \<^item> \<open>Signer_init\<close>: \<^verbatim>\<open>super(HeaderVerifier, self).__init__(secret, algorithm=..., sign_algorithm=...)\<close>,
    giving the \<open>Signer\<close> attributes or raising;
  \<^item> \<open>b64decode\<close>: \<^verbatim>\<open>base64.b64decode\<close> of the standard library.
\<close>

record externals =
  DEFAULT_ALGORITHM :: string
  parse_authorization_header :: "string \<Rightarrow> error + pyobj list"
  parse_signature_header :: "string \<Rightarrow> error + cidict"
  generate_message ::
    "string list \<Rightarrow> cidict \<Rightarrow> string option \<Rightarrow> string option \<Rightarrow> string option \<Rightarrow> error + pytext"
  ct_bytes_compare :: "bytes \<Rightarrow> bytes \<Rightarrow> error + bool"
  Signer_init :: "bytes \<Rightarrow> string \<Rightarrow> sign_alg option \<Rightarrow> error + verifier"
  b64decode :: "bytes \<Rightarrow> error + bytes"

section \<open>\<open>Verifier._verify\<close>\<close>

text \<open>
  \<^verbatim>\<open>
  def _verify(self, data, signature):
      if isinstance(data, six.string_types):
          data = data.encode("ascii")
      if isinstance(signature, six.string_types):
          signature = signature.encode("ascii")
      if self.sign_algorithm == 'rsa':
          h = self._hash.new()
          h.update(data)
          return self._rsa.verify(h, base64.b64decode(signature))
      elif self.sign_algorithm == 'hmac':
          h = self._sign_hmac(data)
          s = base64.b64decode(signature)
          return ct_bytes_compare(h, s)
      elif issubclass(type(self.sign_algorithm), SignAlgorithm):
          return self.sign_algorithm.verify(self.secret, data, signature)
      else:
          raise HttpSigException("Unsupported algorithm.")
  \<close>
  \<open>dispatch\<close> is the \<open>if\<close>/\<open>elif\<close> chain on the two byte strings.
\<close>

definition dispatch ::
  "externals \<Rightarrow> 'a verifier_scheme \<Rightarrow> bytes \<Rightarrow> bytes \<Rightarrow> error + bool" where
  "dispatch E v data signature =
     (if sign_algorithm v = AlgName ''rsa'' then
        bind (hash_of v data) (\<lambda>h.
        bind (b64decode E signature) (\<lambda>s.
        rsa_verify v h s))
      else if sign_algorithm v = AlgName ''hmac'' then
        bind (sign_hmac v data) (\<lambda>h.
        bind (b64decode E signature) (\<lambda>s.
        ct_bytes_compare E h s))
      else (case sign_algorithm v of
              SignAlgorithm impl \<Rightarrow> impl (secret v) data signature
            | _ \<Rightarrow> Inl (HttpSigException ''Unsupported algorithm.'')))"

definition Verifier_verify ::
  "externals \<Rightarrow> 'a verifier_scheme \<Rightarrow> pytext \<Rightarrow> pytext \<Rightarrow> error + bool" where
  "Verifier_verify E v data signature =
     bind (to_bytes data) (\<lambda>data'.
     bind (to_bytes signature) (\<lambda>signature'.
     dispatch E v data' signature'))"

section \<open>\<open>HeaderVerifier\<close>\<close>

text \<open>
  The object after \<open>__init__\<close>: the \<open>Signer\<close> attributes and those that
  \<open>HeaderVerifier.__init__\<close> sets itself (\<open>http_method\<close> is \<^verbatim>\<open>self.method\<close>).
\<close>

record header_verifier = verifier +
  headers :: cidict
  auth_dict :: cidict
  required_headers :: "string list"
  http_method :: "string option"
  path :: "string option"
  host :: "string option"

text \<open>
  Lines 79 to 86: the value of \<open>self.auth_dict\<close>.
  \<^verbatim>\<open>
  if sign_header.lower() == 'authorization':
      auth = parse_authorization_header(self.headers['authorization'])
      if len(auth) == 2:
          self.auth_dict = auth[1]
      else:
          raise HttpSigException("Invalid authorization header.")
  else:
      self.auth_dict = parse_signature_header(self.headers[sign_header])
  \<close>
\<close>

definition read_auth_dict :: "externals \<Rightarrow> cidict \<Rightarrow> string \<Rightarrow> error + pyobj" where
  "read_auth_dict E hs sign_header =
     (if lower sign_header = ''authorization'' then
        bind (getitem hs ''authorization'') (\<lambda>value.
        bind (parse_authorization_header E value) (\<lambda>auth.
        if length auth = 2 then Inr (auth ! 1)
        else Inl (HttpSigException ''Invalid authorization header.'')))
      else
        bind (getitem hs sign_header) (\<lambda>value.
        bind (parse_signature_header E value) (\<lambda>d. Inr (PyDict d))))"

text \<open>The two messages of lines 94 and 96.\<close>

definition deprecated_msg :: "string \<Rightarrow> string \<Rightarrow> string" where
  "deprecated_msg alg dflt = ''Algorithm: '' @ alg @ '' is deprecated please update to '' @ dflt"

definition not_set_msg :: "string \<Rightarrow> string" where
  "not_set_msg dflt = ''Required sign algorithm for '' @ dflt @ '' algorithm not set''"

text \<open>
  \<open>HeaderVerifier.__init__\<close>. The result is what the constructor printed and either the
  exception it raised or the object.
  \<^verbatim>\<open>
  required_headers = required_headers or ['date']
  self.headers = CaseInsensitiveDict(headers)
  ...                                        # lines 79 to 86, above
  self.required_headers = [s.lower() for s in required_headers]
  self.method = method
  self.path = path
  self.host = host
  if self.auth_dict['algorithm'] != DEFAULT_ALGORITHM:
      print("Algorithm: {} is deprecated please update to {}".format(
          self.auth_dict['algorithm'], DEFAULT_ALGORITHM))
  elif self.auth_dict['algorithm'] == DEFAULT_ALGORITHM and sign_algorithm is None:
      raise HttpSigException(
          "Required sign algorithm for {} algorithm not set".format(DEFAULT_ALGORITHM))
  super(HeaderVerifier, self).__init__(
      secret, algorithm=self.auth_dict['algorithm'], sign_algorithm=sign_algorithm)
  \<close>
  \<open>required_headers\<close> is \<open>None\<close> or a list; \<open>x or ['date']\<close> takes \<open>['date']\<close> for
  \<open>None\<close> and for the empty list. When \<open>self.auth_dict\<close> is not a dictionary but a
  string, \<^verbatim>\<open>self.auth_dict['algorithm']\<close> raises \<open>TypeError\<close>.
\<close>

definition or_default :: "string list option \<Rightarrow> string list" where
  "or_default rh =
     (case rh of
        None \<Rightarrow> [''date'']
      | Some rs \<Rightarrow> (if rs = [] then [''date''] else rs))"

definition HeaderVerifier_init ::
  "externals \<Rightarrow> (string \<times> string) list \<Rightarrow> bytes \<Rightarrow> string list option \<Rightarrow>
   string option \<Rightarrow> string option \<Rightarrow> string option \<Rightarrow> string \<Rightarrow> sign_alg option \<Rightarrow>
   string list \<times> (error + header_verifier)" where
  "HeaderVerifier_init E hdrs secret' required_headers' method' path' host' sign_header
       sign_algorithm' =
     (let required = or_default required_headers';
          hs = CaseInsensitiveDict hdrs
      in case read_auth_dict E hs sign_header of
           Inl e \<Rightarrow> ([], Inl e)
         | Inr (PyStr s) \<Rightarrow> ([], Inl TypeError)
         | Inr (PyDict d) \<Rightarrow>
            (case getitem d ''algorithm'' of
               Inl e \<Rightarrow> ([], Inl e)
             | Inr alg \<Rightarrow>
                (let construct =
                       bind (Signer_init E secret' alg sign_algorithm') (\<lambda>v.
                       Inr \<lparr> secret = secret v, sign_algorithm = sign_algorithm v,
                             hash_of = hash_of v, rsa_verify = rsa_verify v,
                             sign_hmac = sign_hmac v,
                             headers = hs, auth_dict = d,
                             required_headers = map lower required,
                             http_method = method', path = path', host = host' \<rparr>)
                 in if alg \<noteq> DEFAULT_ALGORITHM E
                    then ([deprecated_msg alg (DEFAULT_ALGORITHM E)], construct)
                    else if sign_algorithm' = None
                    then ([], Inl (HttpSigException (not_set_msg (DEFAULT_ALGORITHM E))))
                    else ([], construct))))"

text \<open>
  \<open>HeaderVerifier.verify\<close>.
  \<^verbatim>\<open>
  auth_headers = self.auth_dict.get('headers', 'date').split(' ')
  if len(set(self.required_headers) - set(auth_headers)) > 0:
      error_headers = ', '.join(set(self.required_headers) - set(auth_headers))
      raise Exception('{} is a required header(s)'.format(error_headers))
  signing_str = generate_message(
      auth_headers, self.headers, self.host, self.method, self.path)
  return self._verify(signing_str, self.auth_dict['signature'])
  \<close>
\<close>

definition auth_headers :: "header_verifier \<Rightarrow> string list" where
  "auth_headers hv = py_split CHR '' '' (get_default (auth_dict hv) ''headers'' ''date'')"

definition HeaderVerifier_verify :: "externals \<Rightarrow> header_verifier \<Rightarrow> error + bool" where
  "HeaderVerifier_verify E hv =
     (let ah = auth_headers hv
      in if 0 < card (set (required_headers hv) - set ah)
         then Inl (RequiredHeaderException (set (required_headers hv) - set ah))
         else
           bind (generate_message E ah (headers hv) (host hv) (http_method hv) (path hv))
             (\<lambda>signing_str.
           bind (getitem (auth_dict hv) ''signature'') (\<lambda>signature.
           Verifier_verify E hv signing_str (Str signature))))"

section \<open>Concrete collaborators for the examples\<close>

text \<open>
  The theorems below hold for every value of the parameters. The examples need values to
  run on: a decoder for canonical base64 text (four characters give three bytes, \<open>=\<close>
  pads the last group; anything else is rejected), a comparison that is equality, a
  message builder that writes one \<open>name: value\<close> line per signed header, parsers that
  return a given dictionary, and a base constructor that splits a legacy tag at the dash
  and binds stand-ins for the cryptographic primitives.
\<close>

definition b64_index :: "char \<Rightarrow> nat option" where
  "b64_index c =
     (let n = (of_char c :: nat)
      in if 65 \<le> n \<and> n \<le> 90 then Some (n - 65)
         else if 97 \<le> n \<and> n \<le> 122 then Some (n - 71)
         else if 48 \<le> n \<and> n \<le> 57 then Some (n + 4)
         else if n = 43 then Some 62
         else if n = 47 then Some 63
         else None)"

fun b64decode_std :: "bytes \<Rightarrow> error + bytes" where
  "b64decode_std [] = Inr []"
| "b64decode_std (a # b # c # d # rest) =
     (case (b64_index a, b64_index b) of
        (Some x, Some y) \<Rightarrow>
          if c = CHR ''='' \<and> d = CHR ''='' \<and> rest = []
          then Inr [char_of ((x * 64 + y) div 16)]
          else (case b64_index c of
                  None \<Rightarrow> Inl (LibraryError ''Incorrect padding'')
                | Some z \<Rightarrow>
                    if d = CHR ''='' \<and> rest = []
                    then Inr [char_of (((x * 64 + y) * 64 + z) div 1024),
                              char_of (((x * 64 + y) * 64 + z) div 4)]
                    else (case b64_index d of
                            None \<Rightarrow> Inl (LibraryError ''Incorrect padding'')
                          | Some w \<Rightarrow>
                              bind (b64decode_std rest) (\<lambda>bs.
                                Inr (char_of ((((x * 64 + y) * 64 + z) * 64 + w) div 65536)
                                   # char_of ((((x * 64 + y) * 64 + z) * 64 + w) div 256)
                                   # char_of ((((x * 64 + y) * 64 + z) * 64 + w))
                                   # bs))))
      | _ \<Rightarrow> Inl (LibraryError ''Incorrect padding''))"
| "b64decode_std _ = Inl (LibraryError ''Incorrect padding'')"

definition demo_line :: "cidict \<Rightarrow> string \<Rightarrow> error + string" where
  "demo_line hs h = bind (getitem hs h) (\<lambda>v. Inr (lower h @ '': '' @ v))"

fun demo_lines :: "cidict \<Rightarrow> string list \<Rightarrow> error + string" where
  "demo_lines hs [] = Inr []"
| "demo_lines hs [h] = demo_line hs h"
| "demo_lines hs (h # rest) =
     bind (demo_line hs h) (\<lambda>l. bind (demo_lines hs rest) (\<lambda>ls. Inr (l @ [CHR 0x0A] @ ls)))"

definition demo_generate_message ::
  "string list \<Rightarrow> cidict \<Rightarrow> string option \<Rightarrow> string option \<Rightarrow> string option \<Rightarrow> error + pytext" where
  "demo_generate_message hnames hs h m p = bind (demo_lines hs hnames) (\<lambda>s. Inr (Str s))"

definition demo_Signer_init :: "bytes \<Rightarrow> string \<Rightarrow> sign_alg option \<Rightarrow> error + verifier" where
  "demo_Signer_init key alg sa =
     (let obj = (\<lambda>a. \<lparr> secret = key, sign_algorithm = a,
                       hash_of = (\<lambda>data. Inr data),
                       rsa_verify = (\<lambda>h s. Inr (s = key @ h)),
                       sign_hmac = (\<lambda>data. Inr (key @ data)) \<rparr>)
      in if alg = ''hs2019''
         then (case sa of
                 None \<Rightarrow> Inl (LibraryError ''Required digital signature algorithm not specified'')
               | Some a \<Rightarrow> Inr (obj a))
         else Inr (obj (AlgName (hd (py_split CHR ''-'' alg)))))"

definition demo_env :: "cidict \<Rightarrow> externals" where
  "demo_env d =
     \<lparr> DEFAULT_ALGORITHM = ''hs2019'',
       parse_authorization_header =
         (\<lambda>v. if take 10 v = ''Signature '' then Inr [PyStr ''Signature'', PyDict d]
              else Inr [PyStr v]),
       parse_signature_header = (\<lambda>v. Inr d),
       generate_message = demo_generate_message,
       ct_bytes_compare = (\<lambda>a b. Inr (a = b)),
       Signer_init = demo_Signer_init,
       b64decode = b64decode_std \<rparr>"

definition demo_object :: "sign_alg \<Rightarrow> cidict \<Rightarrow> cidict \<Rightarrow> string list \<Rightarrow> header_verifier" where
  "demo_object a hs d required =
     \<lparr> secret = ''secret'', sign_algorithm = a,
       hash_of = (\<lambda>data. Inr data),
       rsa_verify = (\<lambda>h s. Inr (s = ''secret'' @ h)),
       sign_hmac = (\<lambda>data. Inr (''secret'' @ data)),
       headers = hs, auth_dict = d, required_headers = required,
       http_method = None, path = None, host = None \<rparr>"

text \<open>
  A caller-registered implementation that reports the signature it is handed, by raising
  with it, and one that accepts exactly the signature \<open>secret @ data\<close>.
\<close>

definition probe_verify :: "bytes \<Rightarrow> bytes \<Rightarrow> bytes \<Rightarrow> error + bool" where
  "probe_verify key data signature = Inl (LibraryError signature)"

definition plain_verify :: "bytes \<Rightarrow> bytes \<Rightarrow> bytes \<Rightarrow> error + bool" where
  "plain_verify key data signature = Inr (signature = key @ data)"

section \<open>The parser of the \<open>Authorization\<close> header\<close>

text \<open>
  Modelled from the spec: the exception of \<open>parse_authorization_header\<close> (\<open>utils.py\<close>,
  not at hand). The specification calls it \<open>ParseError\<close>; it reaches \<open>verify.py\<close> as an
  exception of a collaborator.
\<close>

definition ParseError :: error where
  "ParseError = LibraryError ''ParseError''"

text \<open>
  Modelled from the spec: the test of \<open>parse_authorization_header\<close> (\<open>utils.py\<close>, not at
  hand) for the scheme. The wire format of the specification is
  \<^verbatim>\<open>Authorization: <scheme> keyId="...", algorithm="...", ...\<close>: the value starts with
  the scheme token and one space. The specification does not name the recognised scheme
  token, so it is a parameter.
\<close>

definition has_scheme_prefix :: "string \<Rightarrow> string \<Rightarrow> bool" where
  "has_scheme_prefix scheme v = (take (length scheme + 1) v = scheme @ '' '')"

text \<open>
  Modelled from the spec: \<open>parse_authorization_header\<close> (\<open>utils.py\<close>, not at hand). The
  specification says that the parser strips the scheme token and parses the remainder as
  the list of \<open>key="value"\<close> pairs, and that it fails with \<open>ParseError\<close> if the scheme
  prefix is absent. The grammar of the pairs is a parameter, \<open>parse_parameters\<close>. The
  result is the pair that \<open>HeaderVerifier.__init__\<close> takes apart: the scheme and the
  parameter dictionary.
\<close>

definition parse_authorization_header_spec ::
  "string \<Rightarrow> (string \<Rightarrow> error + cidict) \<Rightarrow> string \<Rightarrow> error + pyobj list" where
  "parse_authorization_header_spec scheme parse_parameters v =
     (if has_scheme_prefix scheme v
      then bind (parse_parameters (drop (length scheme + 1) v)) (\<lambda>d.
           Inr [PyStr scheme, PyDict d])
      else Inl ParseError)"

text \<open>
  For the examples, a parser of the pairs: the remainder is cut at commas, each piece at
  its first \<open>=\<close>, blanks around the two halves and a pair of double quotes around the
  value are dropped. The scheme of the examples is \<open>Signature\<close>.
\<close>

definition strip :: "string \<Rightarrow> string" where
  "strip s = rev (dropWhile (\<lambda>c. c = CHR '' '') (rev (dropWhile (\<lambda>c. c = CHR '' '') s)))"

definition unquote :: "string \<Rightarrow> string" where
  "unquote s =
     (if 2 \<le> length s \<and> hd s = CHR 0x22 \<and> last s = CHR 0x22 then butlast (tl s) else s)"

definition demo_pair :: "string \<Rightarrow> string \<times> string" where
  "demo_pair item =
     (strip (takeWhile (\<lambda>c. c \<noteq> CHR ''='') item),
      unquote (strip (drop 1 (dropWhile (\<lambda>c. c \<noteq> CHR ''='') item))))"

definition demo_parse_parameters :: "string \<Rightarrow> error + cidict" where
  "demo_parse_parameters rest =
     Inr (CaseInsensitiveDict (map demo_pair (py_split CHR '','' rest)))"

text \<open>
  The collaborators of the examples, with the parser of the specification (scheme
  \<open>Signature\<close>) in front of the parser of the pairs.
\<close>

definition spec_env :: externals where
  "spec_env =
     \<lparr> DEFAULT_ALGORITHM = ''hs2019'',
       parse_authorization_header =
         parse_authorization_header_spec ''Signature'' demo_parse_parameters,
       parse_signature_header = demo_parse_parameters,
       generate_message = demo_generate_message,
       ct_bytes_compare = (\<lambda>a b. Inr (a = b)),
       Signer_init = demo_Signer_init,
       b64decode = b64decode_std \<rparr>"

section \<open>Shared lemmas\<close>

lemmas char_eval = char_of_eq_iff take_bit_eq_mod lower_def lower_char_def

lemma card_diff_pos: "(0 < card (set xs - set ys)) = (set xs - set ys \<noteq> {})"
  by (simp add: card_gt_0_iff)

lemma verify_policy_fail:
  "set (required_headers hv) - set (auth_headers hv) \<noteq> {} \<Longrightarrow>
   HeaderVerifier_verify E hv =
     Inl (RequiredHeaderException (set (required_headers hv) - set (auth_headers hv)))"
  by (simp add: HeaderVerifier_verify_def Let_def card_diff_pos)

lemma verify_policy_pass:
  "set (required_headers hv) - set (auth_headers hv) = {} \<Longrightarrow>
   HeaderVerifier_verify E hv =
     bind (generate_message E (auth_headers hv) (headers hv) (host hv) (http_method hv) (path hv))
       (\<lambda>signing_str.
     bind (getitem (auth_dict hv) ''signature'') (\<lambda>signature.
     Verifier_verify E hv signing_str (Str signature)))"
  by (simp add: HeaderVerifier_verify_def Let_def card_diff_pos)

lemma bind_Inr_iff: "(bind r f = Inr y) = (\<exists>x. r = Inr x \<and> f x = Inr y)"
  by (cases r) (simp_all add: bind_def)

lemma bind_Inr [simp]: "bind (Inr x) f = f x"
  by (simp add: bind_def)

lemma bind_Inl [simp]: "bind (Inl e) f = Inl e"
  by (simp add: bind_def)

lemma char_eq_char_of: "(c = char_of (n::nat)) = (of_char c = n mod 256)"
  using char_of_eq_iff [of n c] by (auto simp: take_bit_eq_mod)

lemmas demo_eval = char_eq_char_of
  demo_env_def demo_object_def demo_Signer_init_def demo_generate_message_def
  demo_line_def getitem_def get_default_def auth_headers_def b64_index_def
  HeaderVerifier_verify_def Verifier_verify_def dispatch_def encode_ascii_def
  HeaderVerifier_init_def read_auth_dict_def or_default_def deprecated_msg_def not_set_msg_def
  Let_def card_diff_pos char_eval

lemma lower_char_idem: "lower_char (lower_char c) = lower_char c"
proof -
  have "(of_char c :: nat) < 256" by simp
  then show ?thesis
    by (auto simp: lower_char_def Let_def)
qed

lemma lower_idem: "lower (lower s) = lower s"
  by (simp add: lower_def lower_char_idem)

lemma lower_no_upper: "c \<in> set (lower s) \<Longrightarrow> \<not> is_upper c"
  by (auto simp: lower_def is_upper_def lower_char_idem)

lemma lower_headers [simp]: "lower ''headers'' = ''headers''"
  by (simp add: char_eval)

lemma lower_date [simp]: "lower ''date'' = ''date''"
  by (simp add: char_eval)

text \<open>What a successful construction has done.\<close>

lemma init_success:
  assumes "HeaderVerifier_init E hdrs sec rh m p h sh sa = (out, Inr hv)"
  shows "\<exists>d alg v.
           read_auth_dict E (CaseInsensitiveDict hdrs) sh = Inr (PyDict d)
         \<and> getitem d ''algorithm'' = Inr alg
         \<and> Signer_init E sec alg sa = Inr v
         \<and> (alg = DEFAULT_ALGORITHM E \<longrightarrow> sa \<noteq> None)
         \<and> out = (if alg \<noteq> DEFAULT_ALGORITHM E
                  then [deprecated_msg alg (DEFAULT_ALGORITHM E)] else [])
         \<and> hv = \<lparr> secret = secret v, sign_algorithm = sign_algorithm v,
                   hash_of = hash_of v, rsa_verify = rsa_verify v, sign_hmac = sign_hmac v,
                   headers = CaseInsensitiveDict hdrs, auth_dict = d,
                   required_headers = map lower (or_default rh),
                   http_method = m, path = p, host = h \<rparr>"
  using assms
  by (auto simp: HeaderVerifier_init_def Let_def bind_Inr_iff
           split: sum.splits pyobj.splits if_splits)

lemma init_required_headers:
  "HeaderVerifier_init E hdrs sec rh m p h sh sa = (out, Inr hv) \<Longrightarrow>
   required_headers hv = map lower (or_default rh)"
  by (drule init_success) auto

section \<open>The required-header policy\<close>

text \<open>
  C1. Whenever the set difference of the required headers of the verifier and the
  signed-headers list of the parsed parameters is not empty, \<open>HeaderVerifier.verify\<close>
  raises the exception that names exactly the missing headers. It does so before the
  canonical string is built and before any cryptographic step: the outcome is the same
  whatever the collaborators (message builder, decoder, comparison) are and whatever
  algorithm and primitives are bound to the object, so none of them was consulted.
\<close>

theorem verify_missing_required_headers:
  assumes "set (required_headers hv) - set (auth_headers hv) \<noteq> {}"
  shows "HeaderVerifier_verify E hv =
           Inl (RequiredHeaderException (set (required_headers hv) - set (auth_headers hv)))
       \<and> HeaderVerifier_verify E'
           (hv\<lparr> sign_algorithm := a, hash_of := f, rsa_verify := g, sign_hmac := h \<rparr>)
         = HeaderVerifier_verify E hv"
proof -
  let ?hv' = "hv\<lparr> sign_algorithm := a, hash_of := f, rsa_verify := g, sign_hmac := h \<rparr>"
  have "required_headers ?hv' = required_headers hv" "auth_headers ?hv' = auth_headers hv"
    by (simp_all add: auth_headers_def)
  with assms show ?thesis
    by (simp add: verify_policy_fail)
qed

text \<open>
  The example of the specification: \<open>date\<close> and \<open>digest\<close> are required, the signature
  covers \<open>date\<close> only.
\<close>

theorem verify_missing_required_headers_witness:
  "set [''date'', ''digest''] - set [''date''] \<noteq> {} \<and>
   HeaderVerifier_verify
     (demo_env (CaseInsensitiveDict [(''headers'', ''date''), (''signature'', ''QUJD'')]))
     (demo_object (AlgName ''hmac'') (CaseInsensitiveDict [(''Date'', ''today'')])
        (CaseInsensitiveDict [(''headers'', ''date''), (''signature'', ''QUJD'')])
        [''date'', ''digest''])
   = Inl (RequiredHeaderException {''digest''})"
  using verify_missing_required_headers
    [of "demo_object (AlgName ''hmac'') (CaseInsensitiveDict [(''Date'', ''today'')])
           (CaseInsensitiveDict [(''headers'', ''date''), (''signature'', ''QUJD'')])
           [''date'', ''digest'']"
        "demo_env (CaseInsensitiveDict [(''headers'', ''date''), (''signature'', ''QUJD'')])"]
  by (simp add: auth_headers_def demo_object_def get_default_def char_eval)

section \<open>The default signed-headers list\<close>

text \<open>
  C6. When the parsed parameters have no \<open>headers\<close> field, verification takes the
  signed-headers list to be exactly \<open>["date"]\<close>: that list is what the policy test
  compares the required headers with and what the canonical string is built from.
\<close>

theorem verify_default_signed_headers:
  assumes "auth_dict hv ''headers'' = None"
  shows "auth_headers hv = [''date'']
       \<and> HeaderVerifier_verify E hv =
           (if set (required_headers hv) \<subseteq> {''date''}
            then bind (generate_message E [''date''] (headers hv) (host hv) (http_method hv)
                         (path hv))
                   (\<lambda>signing_str.
                 bind (getitem (auth_dict hv) ''signature'') (\<lambda>signature.
                 Verifier_verify E hv signing_str (Str signature)))
            else Inl (RequiredHeaderException (set (required_headers hv) - {''date''})))"
proof -
  have ah: "auth_headers hv = [''date'']"
    using assms by (simp add: auth_headers_def get_default_def)
  show ?thesis
  proof (cases "set (required_headers hv) \<subseteq> {''date''}")
    case True
    then have "set (required_headers hv) - set (auth_headers hv) = {}"
      using ah by auto
    from verify_policy_pass [OF this] True ah show ?thesis by simp
  next
    case False
    then have "set (required_headers hv) - set (auth_headers hv) \<noteq> {}"
      using ah by auto
    from verify_policy_fail [OF this] False ah show ?thesis by simp
  qed
qed

text \<open>
  A signature over the \<open>date\<close> header alone, sent without a \<open>headers\<close> field, is
  checked against the line \<open>date: today\<close>.
\<close>

theorem verify_default_signed_headers_witness:
  "auth_dict (demo_object (AlgName ''hmac'') (CaseInsensitiveDict [(''Date'', ''today'')])
        (CaseInsensitiveDict [(''signature'', ''c2VjcmV0ZGF0ZTogdG9kYXk='')]) [''date''])
     ''headers'' = None
   \<and> auth_headers (demo_object (AlgName ''hmac'') (CaseInsensitiveDict [(''Date'', ''today'')])
        (CaseInsensitiveDict [(''signature'', ''c2VjcmV0ZGF0ZTogdG9kYXk='')]) [''date''])
     = [''date'']
   \<and> HeaderVerifier_verify (demo_env Map.empty)
       (demo_object (AlgName ''hmac'') (CaseInsensitiveDict [(''Date'', ''today'')])
        (CaseInsensitiveDict [(''signature'', ''c2VjcmV0ZGF0ZTogdG9kYXk='')]) [''date''])
     = Inr True"
  using verify_default_signed_headers
    [of "demo_object (AlgName ''hmac'') (CaseInsensitiveDict [(''Date'', ''today'')])
           (CaseInsensitiveDict [(''signature'', ''c2VjcmV0ZGF0ZTogdG9kYXk='')]) [''date'']"
        "demo_env Map.empty"]
  by (simp add: demo_eval)

section \<open>The default policy\<close>

text \<open>
  C10. When the caller passes \<open>None\<close> or the empty list as \<open>required_headers\<close>, the
  constructed verifier holds the policy \<open>['date']\<close>; an empty policy cannot be expressed:
  for every such construction, verification raises the required-header exception
  whenever \<open>date\<close> is not in the signed-headers list.
\<close>

theorem init_empty_policy_is_date:
  assumes "rh = None \<or> rh = Some []"
    and "HeaderVerifier_init E hdrs sec rh m p h sh sa = (out, Inr hv)"
  shows "required_headers hv = [''date'']
       \<and> (''date'' \<notin> set (auth_headers hv) \<longrightarrow>
            HeaderVerifier_verify E' hv = Inl (RequiredHeaderException {''date''}))"
proof -
  have rq: "required_headers hv = [''date'']"
    using assms init_required_headers [OF assms(2)] by (auto simp: or_default_def)
  show ?thesis
  proof (intro conjI impI)
    assume "''date'' \<notin> set (auth_headers hv)"
    then have d: "set (required_headers hv) - set (auth_headers hv) = {''date''}"
      using rq by auto
    then have "set (required_headers hv) - set (auth_headers hv) \<noteq> {}" by simp
    from verify_policy_fail [OF this] d
    show "HeaderVerifier_verify E' hv = Inl (RequiredHeaderException {''date''})" by simp
  qed (rule rq)
qed

text \<open>
  The caller asks for no required header at all and the signature covers \<open>host\<close> only:
  the construction succeeds and verification still asks for \<open>date\<close>.
\<close>

theorem init_empty_policy_is_date_witness:
  "(Some [] = (None :: string list option) \<or> Some ([] :: string list) = Some [])
   \<and> HeaderVerifier_init
       (demo_env (CaseInsensitiveDict [(''keyId'', ''k''), (''algorithm'', ''hmac-sha256''),
                     (''headers'', ''host''), (''signature'', ''QUJD'')]))
       [(''Authorization'', ''Signature keyId=...''), (''Host'', ''a'')]
       ''secret'' (Some []) None None None ''authorization'' None
     = ([''Algorithm: hmac-sha256 is deprecated please update to hs2019''],
        Inr (demo_object (AlgName ''hmac'')
              (CaseInsensitiveDict [(''Authorization'', ''Signature keyId=...''), (''Host'', ''a'')])
              (CaseInsensitiveDict [(''keyId'', ''k''), (''algorithm'', ''hmac-sha256''),
                     (''headers'', ''host''), (''signature'', ''QUJD'')])
              [''date'']))
   \<and> HeaderVerifier_verify
       (demo_env (CaseInsensitiveDict [(''keyId'', ''k''), (''algorithm'', ''hmac-sha256''),
                     (''headers'', ''host''), (''signature'', ''QUJD'')]))
       (demo_object (AlgName ''hmac'')
              (CaseInsensitiveDict [(''Authorization'', ''Signature keyId=...''), (''Host'', ''a'')])
              (CaseInsensitiveDict [(''keyId'', ''k''), (''algorithm'', ''hmac-sha256''),
                     (''headers'', ''host''), (''signature'', ''QUJD'')])
              [''date''])
     = Inl (RequiredHeaderException {''date''})"
proof -
  let ?d = "CaseInsensitiveDict [(''keyId'', ''k''), (''algorithm'', ''hmac-sha256''),
                     (''headers'', ''host''), (''signature'', ''QUJD'')]"
  let ?hdrs = "[(''Authorization'', ''Signature keyId=...''), (''Host'', ''a'')]"
  let ?hv = "demo_object (AlgName ''hmac'') (CaseInsensitiveDict ?hdrs) ?d [''date'']"
  have i: "HeaderVerifier_init (demo_env ?d) ?hdrs ''secret'' (Some []) None None None
             ''authorization'' None
           = ([''Algorithm: hmac-sha256 is deprecated please update to hs2019''], Inr ?hv)"
    by (simp add: demo_eval)
  have n: "''date'' \<notin> set (auth_headers ?hv)"
    by (simp add: demo_eval)
  from init_empty_policy_is_date [OF _ i, of "demo_env ?d"] n i show ?thesis
    by simp
qed

section \<open>Case handling of header names\<close>

lemma py_split_not_Nil: "py_split sep s \<noteq> []"
  by (induction s) (auto split: list.splits)

lemma concat_py_split: "concat (py_split sep s) = filter (\<lambda>c. c \<noteq> sep) s"
  by (induction s) (auto split: list.splits simp: py_split_not_Nil)

lemma py_split_no_sep: "x \<in> set (py_split sep s) \<Longrightarrow> sep \<notin> set x"
  by (induction s arbitrary: x) (auto split: list.splits if_splits simp: py_split_not_Nil)

text \<open>
  C9. The constructor lower-cases every required name (after the default has been taken)
  before the policy test. The signed-headers list is the \<open>headers\<close> field cut at
  single spaces, its characters unchanged: the pieces, put together again, are the
  characters of the field other than the spaces. Consequently a signed entry that
  contains an upper-case letter is never one of the required names, and a required name
  whose only matches in the signed list, compared without regard to case, contain an
  upper-case letter is reported as missing.
\<close>

theorem init_lowers_required_only:
  assumes "HeaderVerifier_init E hdrs sec rh m p h sh sa = (out, Inr hv)"
  shows "required_headers hv = map lower (or_default rh)
       \<and> (\<forall>raw. auth_dict hv ''headers'' = Some raw \<longrightarrow>
             auth_headers hv = py_split CHR '' '' raw
           \<and> concat (auth_headers hv) = filter (\<lambda>c. c \<noteq> CHR '' '') raw)
       \<and> (\<forall>x \<in> set (auth_headers hv).
             (\<exists>c \<in> set x. is_upper c) \<longrightarrow> x \<notin> set (required_headers hv))
       \<and> (\<forall>r \<in> set (or_default rh).
             (\<forall>x \<in> set (auth_headers hv). lower x = lower r \<longrightarrow> (\<exists>c \<in> set x. is_upper c)) \<longrightarrow>
             lower r \<in> set (required_headers hv) - set (auth_headers hv)
           \<and> HeaderVerifier_verify E' hv =
               Inl (RequiredHeaderException (set (required_headers hv) - set (auth_headers hv))))"
proof (intro conjI allI ballI impI)
  show rq: "required_headers hv = map lower (or_default rh)"
    by (rule init_required_headers [OF assms])
  {
    fix raw assume "auth_dict hv ''headers'' = Some raw"
    then show ah: "auth_headers hv = py_split CHR '' '' raw"
      by (simp add: auth_headers_def get_default_def)
    then show "concat (auth_headers hv) = filter (\<lambda>c. c \<noteq> CHR '' '') raw"
      by (simp add: concat_py_split)
  }
  {
    fix x assume "x \<in> set (auth_headers hv)" and up: "\<exists>c \<in> set x. is_upper c"
    show "x \<notin> set (required_headers hv)"
    proof
      assume "x \<in> set (required_headers hv)"
      then obtain r where "x = lower r" using rq by auto
      with up show False using lower_no_upper by blast
    qed
  }
  {
    fix r assume r: "r \<in> set (or_default rh)"
      and all: "\<forall>x \<in> set (auth_headers hv). lower x = lower r \<longrightarrow> (\<exists>c \<in> set x. is_upper c)"
    have "lower r \<notin> set (auth_headers hv)"
    proof
      assume "lower r \<in> set (auth_headers hv)"
      with all have "\<exists>c \<in> set (lower r). is_upper c" by (simp add: lower_idem)
      then show False using lower_no_upper by blast
    qed
    moreover have "lower r \<in> set (required_headers hv)" using r rq by simp
    ultimately show in_diff: "lower r \<in> set (required_headers hv) - set (auth_headers hv)"
      by simp
    then have "set (required_headers hv) - set (auth_headers hv) \<noteq> {}" by blast
    then show "HeaderVerifier_verify E' hv =
               Inl (RequiredHeaderException (set (required_headers hv) - set (auth_headers hv)))"
      by (rule verify_policy_fail)
  }
qed

text \<open>
  The caller requires \<open>Date\<close> and the signature declares \<open>headers="Date"\<close>: the
  policy test compares \<open>date\<close> with \<open>Date\<close> and fails.
\<close>

theorem init_lowers_required_only_witness:
  "HeaderVerifier_init
       (demo_env (CaseInsensitiveDict [(''keyId'', ''k''), (''algorithm'', ''hmac-sha256''),
                     (''headers'', ''Date''), (''signature'', ''QUJD'')]))
       [(''Authorization'', ''Signature keyId=...''), (''Date'', ''today'')]
       ''secret'' (Some [''Date'']) None None None ''authorization'' None
     = ([''Algorithm: hmac-sha256 is deprecated please update to hs2019''],
        Inr (demo_object (AlgName ''hmac'')
              (CaseInsensitiveDict [(''Authorization'', ''Signature keyId=...''), (''Date'', ''today'')])
              (CaseInsensitiveDict [(''keyId'', ''k''), (''algorithm'', ''hmac-sha256''),
                     (''headers'', ''Date''), (''signature'', ''QUJD'')])
              [''date'']))
   \<and> auth_headers (demo_object (AlgName ''hmac'')
              (CaseInsensitiveDict [(''Authorization'', ''Signature keyId=...''), (''Date'', ''today'')])
              (CaseInsensitiveDict [(''keyId'', ''k''), (''algorithm'', ''hmac-sha256''),
                     (''headers'', ''Date''), (''signature'', ''QUJD'')])
              [''date'']) = [''Date'']
   \<and> is_upper CHR ''D''
   \<and> HeaderVerifier_verify
       (demo_env (CaseInsensitiveDict [(''keyId'', ''k''), (''algorithm'', ''hmac-sha256''),
                     (''headers'', ''Date''), (''signature'', ''QUJD'')]))
       (demo_object (AlgName ''hmac'')
              (CaseInsensitiveDict [(''Authorization'', ''Signature keyId=...''), (''Date'', ''today'')])
              (CaseInsensitiveDict [(''keyId'', ''k''), (''algorithm'', ''hmac-sha256''),
                     (''headers'', ''Date''), (''signature'', ''QUJD'')])
              [''date''])
     = Inl (RequiredHeaderException {''date''})"
proof -
  let ?d = "CaseInsensitiveDict [(''keyId'', ''k''), (''algorithm'', ''hmac-sha256''),
                     (''headers'', ''Date''), (''signature'', ''QUJD'')]"
  let ?hdrs = "[(''Authorization'', ''Signature keyId=...''), (''Date'', ''today'')]"
  let ?hv = "demo_object (AlgName ''hmac'') (CaseInsensitiveDict ?hdrs) ?d [''date'']"
  have i: "HeaderVerifier_init (demo_env ?d) ?hdrs ''secret'' (Some [''Date'']) None None None
             ''authorization'' None
           = ([''Algorithm: hmac-sha256 is deprecated please update to hs2019''], Inr ?hv)"
    by (simp add: demo_eval)
  have a: "auth_headers ?hv = [''Date'']"
    by (simp add: demo_eval)
  have u: "is_upper CHR ''D''"
    by (simp add: is_upper_def demo_eval)
  have o: "or_default (Some [''Date'']) = [''Date'']" "required_headers ?hv = [''date'']"
    by (simp_all add: demo_eval)
  have "HeaderVerifier_verify (demo_env ?d) ?hv = Inl (RequiredHeaderException {''date''})"
    using init_lowers_required_only [OF i, of "demo_env ?d"] a u o by (simp add: demo_eval)
  with i a u show ?thesis by simp
qed


section \<open>The constructor\<close>

lemma CaseInsensitiveDict_None:
  "(CaseInsensitiveDict kvs x = None) = (\<forall>(k, v) \<in> set kvs. lower k \<noteq> x)"
  by (induction kvs) (auto split: option.splits)

lemma lower_authorization [simp]: "lower ''authorization'' = ''authorization''"
  by (simp add: char_eval)

lemma lower_algorithm [simp]: "lower ''algorithm'' = ''algorithm''"
  by (simp add: char_eval)

lemma read_auth_dict_update [simp]:
  "read_auth_dict (E\<lparr>Signer_init := si\<rparr>) hs sh = read_auth_dict E hs sh"
  by (simp add: read_auth_dict_def)

text \<open>
  C2. Let the parsed parameters declare the algorithm \<open>alg\<close>. If \<open>alg\<close> is the generic
  scheme tag (\<open>DEFAULT_ALGORITHM\<close>) and no \<open>sign_algorithm\<close> is supplied, the
  constructor raises \<open>HttpSigException\<close> at once: nothing is printed and the base
  constructor plays no part, whatever it is. If \<open>alg\<close> is any other tag (a legacy fixed
  combination), the constructor prints the deprecation advisory and nothing more, and
  succeeds with the object whenever the base constructor accepts the arguments.
\<close>

theorem init_generic_scheme_needs_algorithm:
  assumes "read_auth_dict E (CaseInsensitiveDict hdrs) sh = Inr (PyDict d)"
    and "d ''algorithm'' = Some alg"
  shows "(alg = DEFAULT_ALGORITHM E \<longrightarrow>
            HeaderVerifier_init (E\<lparr>Signer_init := si\<rparr>) hdrs sec rh m p h sh None
            = ([], Inl (HttpSigException (not_set_msg (DEFAULT_ALGORITHM E)))))
       \<and> (alg \<noteq> DEFAULT_ALGORITHM E \<longrightarrow>
            (\<forall>v. Signer_init E sec alg sa = Inr v \<longrightarrow>
              HeaderVerifier_init E hdrs sec rh m p h sh sa
              = ([deprecated_msg alg (DEFAULT_ALGORITHM E)],
                 Inr \<lparr> secret = secret v, sign_algorithm = sign_algorithm v,
                       hash_of = hash_of v, rsa_verify = rsa_verify v, sign_hmac = sign_hmac v,
                       headers = CaseInsensitiveDict hdrs, auth_dict = d,
                       required_headers = map lower (or_default rh),
                       http_method = m, path = p, host = h \<rparr>)))"
  using assms
  by (simp add: HeaderVerifier_init_def Let_def getitem_def)

text \<open>
  \<open>hs2019\<close> without an implementation is refused; \<open>rsa-sha256\<close> is accepted with the
  advisory.
\<close>

theorem init_generic_scheme_needs_algorithm_witness:
  "HeaderVerifier_init
       (demo_env (CaseInsensitiveDict [(''keyId'', ''k''), (''algorithm'', ''hs2019''),
                     (''signature'', ''QUJD'')]))
       [(''Authorization'', ''Signature keyId=...''), (''Date'', ''today'')]
       ''secret'' None None None None ''authorization'' None
     = ([], Inl (HttpSigException ''Required sign algorithm for hs2019 algorithm not set''))
   \<and> HeaderVerifier_init
       (demo_env (CaseInsensitiveDict [(''keyId'', ''k''), (''algorithm'', ''rsa-sha256''),
                     (''signature'', ''QUJD'')]))
       [(''Authorization'', ''Signature keyId=...''), (''Date'', ''today'')]
       ''secret'' None None None None ''authorization'' None
     = ([''Algorithm: rsa-sha256 is deprecated please update to hs2019''],
        Inr (demo_object (AlgName ''rsa'')
              (CaseInsensitiveDict [(''Authorization'', ''Signature keyId=...''), (''Date'', ''today'')])
              (CaseInsensitiveDict [(''keyId'', ''k''), (''algorithm'', ''rsa-sha256''),
                     (''signature'', ''QUJD'')])
              [''date'']))"
proof -
  let ?hdrs = "[(''Authorization'', ''Signature keyId=...''), (''Date'', ''today'')]"
  let ?d1 = "CaseInsensitiveDict [(''keyId'', ''k''), (''algorithm'', ''hs2019''),
                     (''signature'', ''QUJD'')]"
  let ?d2 = "CaseInsensitiveDict [(''keyId'', ''k''), (''algorithm'', ''rsa-sha256''),
                     (''signature'', ''QUJD'')]"
  have r1: "read_auth_dict (demo_env ?d1) (CaseInsensitiveDict ?hdrs) ''authorization''
            = Inr (PyDict ?d1)"
    by (simp add: demo_eval)
  have a1: "?d1 ''algorithm'' = Some ''hs2019''"
    by (simp add: demo_eval)
  have e1: "(demo_env ?d1)\<lparr>Signer_init := demo_Signer_init\<rparr> = demo_env ?d1"
    by (simp add: demo_env_def)
  have r2: "read_auth_dict (demo_env ?d2) (CaseInsensitiveDict ?hdrs) ''authorization''
            = Inr (PyDict ?d2)"
    by (simp add: demo_eval)
  have a2: "?d2 ''algorithm'' = Some ''rsa-sha256''"
    by (simp add: demo_eval)
  have s2: "Signer_init (demo_env ?d2) ''secret'' ''rsa-sha256'' None
            = Inr \<lparr> secret = ''secret'', sign_algorithm = AlgName ''rsa'',
                    hash_of = (\<lambda>data. Inr data),
                    rsa_verify = (\<lambda>h s. Inr (s = ''secret'' @ h)),
                    sign_hmac = (\<lambda>data. Inr (''secret'' @ data)) \<rparr>"
    by (simp add: demo_eval)
  from init_generic_scheme_needs_algorithm [OF r1 a1, of demo_Signer_init "''secret''" None None None None]
  have "HeaderVerifier_init (demo_env ?d1) ?hdrs ''secret'' None None None None
          ''authorization'' None
        = ([], Inl (HttpSigException ''Required sign algorithm for hs2019 algorithm not set''))"
    by (simp add: e1) (simp add: demo_env_def not_set_msg_def)
  moreover
  from init_generic_scheme_needs_algorithm [OF r2 a2, of demo_Signer_init "''secret''" None None None None None] s2
  have "HeaderVerifier_init (demo_env ?d2) ?hdrs ''secret'' None None None None
          ''authorization'' None
        = ([''Algorithm: rsa-sha256 is deprecated please update to hs2019''],
           Inr (demo_object (AlgName ''rsa'') (CaseInsensitiveDict ?hdrs) ?d2 [''date'']))"
    by (simp add: demo_env_def deprecated_msg_def demo_object_def or_default_def char_eval)
  ultimately show ?thesis by simp
qed

lemmas parser_eval = spec_env_def parse_authorization_header_spec_def has_scheme_prefix_def
  demo_parse_parameters_def demo_pair_def strip_def unquote_def ParseError_def

text \<open>
  C8. When the signature is carried by the \<open>Authorization\<close> header and the parser is the
  one the specification describes, the constructor fails if no header of that name is in
  the supplied map (\<open>KeyError\<close> of the subscript) and it fails with the parser's
  \<open>ParseError\<close> if the header value does not start with the scheme prefix. When the
  prefix is there, the parameter set of the verifier is what the remainder of the value
  parses to, and a failure to parse the remainder is passed on.
\<close>

theorem init_authorization_header:
  assumes "lower sh = ''authorization''"
    and "parse_authorization_header E = parse_authorization_header_spec scheme pp"
  shows "((\<forall>(k, v) \<in> set hdrs. lower k \<noteq> ''authorization'') \<longrightarrow>
            HeaderVerifier_init E hdrs sec rh m p h sh sa = ([], Inl (KeyError ''authorization'')))
       \<and> (\<forall>v. CaseInsensitiveDict hdrs ''authorization'' = Some v \<longrightarrow>
            (\<not> has_scheme_prefix scheme v \<longrightarrow>
               HeaderVerifier_init E hdrs sec rh m p h sh sa = ([], Inl ParseError))
          \<and> (\<forall>rest. v = scheme @ '' '' @ rest \<longrightarrow>
               read_auth_dict E (CaseInsensitiveDict hdrs) sh
                 = bind (pp rest) (\<lambda>d. Inr (PyDict d))
             \<and> (\<forall>e. pp rest = Inl e \<longrightarrow>
                  HeaderVerifier_init E hdrs sec rh m p h sh sa = ([], Inl e))
             \<and> (\<forall>out hv. HeaderVerifier_init E hdrs sec rh m p h sh sa = (out, Inr hv) \<longrightarrow>
                  pp rest = Inr (auth_dict hv))))"
proof (intro conjI allI impI)
  assume "\<forall>(k, v) \<in> set hdrs. lower k \<noteq> ''authorization''"
  then have "CaseInsensitiveDict hdrs ''authorization'' = None"
    by (simp add: CaseInsensitiveDict_None)
  then show "HeaderVerifier_init E hdrs sec rh m p h sh sa = ([], Inl (KeyError ''authorization''))"
    using assms(1) by (simp add: HeaderVerifier_init_def read_auth_dict_def getitem_def)
next
  fix v
  assume v: "CaseInsensitiveDict hdrs ''authorization'' = Some v"
    and "\<not> has_scheme_prefix scheme v"
  then have "parse_authorization_header E v = Inl ParseError"
    using assms(2) by (simp add: parse_authorization_header_spec_def)
  with v show "HeaderVerifier_init E hdrs sec rh m p h sh sa = ([], Inl ParseError)"
    using assms(1) by (simp add: HeaderVerifier_init_def read_auth_dict_def getitem_def)
next
  fix v rest
  assume v: "CaseInsensitiveDict hdrs ''authorization'' = Some v"
    and r: "v = scheme @ '' '' @ rest"
  have "parse_authorization_header E v = bind (pp rest) (\<lambda>d. Inr [PyStr scheme, PyDict d])"
    using assms(2) r by (simp add: parse_authorization_header_spec_def has_scheme_prefix_def)
  with v show rd: "read_auth_dict E (CaseInsensitiveDict hdrs) sh
                 = bind (pp rest) (\<lambda>d. Inr (PyDict d))"
    using assms(1) by (cases "pp rest") (simp_all add: read_auth_dict_def getitem_def)
  {
    fix e assume "pp rest = Inl e"
    with rd show "HeaderVerifier_init E hdrs sec rh m p h sh sa = ([], Inl e)"
      by (simp add: HeaderVerifier_init_def)
  }
  {
    fix out hv
    assume "HeaderVerifier_init E hdrs sec rh m p h sh sa = (out, Inr hv)"
    from init_success [OF this] rd show "pp rest = Inr (auth_dict hv)"
      by (cases "pp rest") auto
  }
qed


text \<open>
  No \<open>Authorization\<close> header at all; a header value without the scheme; the same
  value with the scheme in front.
\<close>

theorem init_authorization_header_witness:
  "lower ''Authorization'' = ''authorization''
   \<and> HeaderVerifier_init spec_env [(''Date'', ''today'')]
       ''secret'' None None None None ''Authorization'' None
     = ([], Inl (KeyError ''authorization''))
   \<and> \<not> has_scheme_prefix ''Signature'' ''keyId=k, algorithm=rsa-sha256, signature=QUJD''
   \<and> HeaderVerifier_init spec_env
       [(''Authorization'', ''keyId=k, algorithm=rsa-sha256, signature=QUJD''),
        (''Date'', ''today'')]
       ''secret'' None None None None ''Authorization'' None
     = ([], Inl ParseError)
   \<and> HeaderVerifier_init spec_env
       [(''Authorization'', ''Signature keyId=k, algorithm=rsa-sha256, signature=QUJD''),
        (''Date'', ''today'')]
       ''secret'' None None None None ''Authorization'' None
     = ([''Algorithm: rsa-sha256 is deprecated please update to hs2019''],
        Inr (demo_object (AlgName ''rsa'')
              (CaseInsensitiveDict
                 [(''Authorization'', ''Signature keyId=k, algorithm=rsa-sha256, signature=QUJD''),
                  (''Date'', ''today'')])
              (CaseInsensitiveDict
                 [(''keyId'', ''k''), (''algorithm'', ''rsa-sha256''), (''signature'', ''QUJD'')])
              [''date'']))
   \<and> demo_parse_parameters ''keyId=k, algorithm=rsa-sha256, signature=QUJD''
     = Inr (CaseInsensitiveDict
              [(''keyId'', ''k''), (''algorithm'', ''rsa-sha256''), (''signature'', ''QUJD'')])"
proof -
  let ?rest = "''keyId=k, algorithm=rsa-sha256, signature=QUJD''"
  let ?full = "''Signature keyId=k, algorithm=rsa-sha256, signature=QUJD''"
  let ?d = "CaseInsensitiveDict
              [(''keyId'', ''k''), (''algorithm'', ''rsa-sha256''), (''signature'', ''QUJD'')]"
  let ?h0 = "[(''Date'', ''today'')]"
  let ?h1 = "[(''Authorization'', ?rest), (''Date'', ''today'')]"
  let ?h2 = "[(''Authorization'', ?full), (''Date'', ''today'')]"
  let ?hv = "demo_object (AlgName ''rsa'') (CaseInsensitiveDict ?h2) ?d [''date'']"
  have l: "lower ''Authorization'' = ''authorization''"
    by (simp add: char_eval char_eq_char_of)
  have e: "parse_authorization_header spec_env
           = parse_authorization_header_spec ''Signature'' demo_parse_parameters"
    by (simp add: spec_env_def)
  note t = init_authorization_header [OF l e]
  have n0: "\<forall>(k, v) \<in> set ?h0. lower k \<noteq> ''authorization''"
    by (simp add: char_eval char_eq_char_of)
  have v1: "CaseInsensitiveDict ?h1 ''authorization'' = Some ?rest"
    by (simp add: char_eval char_eq_char_of)
  have p1: "\<not> has_scheme_prefix ''Signature'' ?rest"
    by (simp add: has_scheme_prefix_def)
  have v2: "CaseInsensitiveDict ?h2 ''authorization'' = Some ?full"
    by (simp add: char_eval char_eq_char_of)
  have p2: "?full = ''Signature'' @ '' '' @ ?rest"
    by simp
  have pp: "demo_parse_parameters ?rest = Inr ?d"
    by (simp add: parser_eval)
  have i2: "HeaderVerifier_init spec_env ?h2 ''secret'' None None None None ''Authorization'' None
            = ([''Algorithm: rsa-sha256 is deprecated please update to hs2019''], Inr ?hv)"
    by (simp add: parser_eval demo_eval)
  have 1: "HeaderVerifier_init spec_env ?h0 ''secret'' None None None None ''Authorization'' None
           = ([], Inl (KeyError ''authorization''))"
    using t [of ?h0] n0 by blast
  have 2: "HeaderVerifier_init spec_env ?h1 ''secret'' None None None None ''Authorization'' None
           = ([], Inl ParseError)"
    using t [of ?h1] v1 p1 by blast
  have 3: "demo_parse_parameters ?rest = Inr (auth_dict ?hv)"
    using t [of ?h2] v2 p2 i2 by blast
  from l 1 p1 2 i2 pp show ?thesis by simp
qed


section \<open>The cryptographic step\<close>

lemma lower_signature [simp]: "lower ''signature'' = ''signature''"
  by (simp add: char_eval)

lemma encode_ascii_Inr: "encode_ascii x = Inr y \<Longrightarrow> y = x"
  by (simp add: encode_ascii_def split: if_splits)

lemma verify_after_policy:
  assumes "set (required_headers hv) \<subseteq> set (auth_headers hv)"
    and "generate_message E (auth_headers hv) (headers hv) (host hv) (http_method hv) (path hv)
         = Inr msg"
  shows "HeaderVerifier_verify E hv =
         bind (getitem (auth_dict hv) ''signature'') (\<lambda>sg. Verifier_verify E hv msg (Str sg))"
proof -
  from assms(1) have "set (required_headers hv) - set (auth_headers hv) = {}" by auto
  from verify_policy_pass [OF this] assms(2) show ?thesis by simp
qed

lemma verify_reaches_dispatch:
  assumes "set (required_headers hv) \<subseteq> set (auth_headers hv)"
    and "generate_message E (auth_headers hv) (headers hv) (host hv) (http_method hv) (path hv)
         = Inr msg"
    and "to_bytes msg = Inr d"
    and "auth_dict hv ''signature'' = Some sg"
    and "encode_ascii sg = Inr s"
  shows "HeaderVerifier_verify E hv = dispatch E hv d s"
  using verify_after_policy [OF assms(1,2)] assms(3-5)
  by (simp add: getitem_def Verifier_verify_def)

lemma demo_to_bytes: "to_bytes (Str ''date: today'') = Inr ''date: today''"
  by (simp add: encode_ascii_def)

lemma demo_facts:
  fixes sg :: string and a :: sign_alg
  defines "hv \<equiv> demo_object a (CaseInsensitiveDict [(''Date'', ''today'')])
        (CaseInsensitiveDict [(''keyId'', ''k''), (''algorithm'', ''hmac-sha256''),
           (''signature'', sg)]) [''date'']"
  shows "set (required_headers hv) \<subseteq> set (auth_headers hv)"
    and "generate_message (demo_env Map.empty) (auth_headers hv) (headers hv) (host hv)
           (http_method hv) (path hv) = Inr (Str ''date: today'')"
    and "auth_dict hv ''signature'' = Some sg"
    and "sign_algorithm hv = a"
    and "sign_hmac hv ''date: today'' = Inr ''secretdate: today''"
    and "secret hv = ''secret''"
  by (simp_all add: hv_def demo_eval)

text \<open>
  C3, as the specification states it, fails. A caller-registered implementation that
  reports the signature it is handed receives \<open>QUJD\<close>, the \<open>signature\<close> field as it
  came on the wire, and not \<open>ABC\<close>, the bytes that \<open>QUJD\<close> encodes: the outcome
  differs from that of the same implementation on the decoded bytes.
\<close>

theorem extension_receives_encoded_signature:
  "HeaderVerifier_verify (demo_env (CaseInsensitiveDict []))
     (demo_object (SignAlgorithm probe_verify) (CaseInsensitiveDict [(''Date'', ''today'')])
        (CaseInsensitiveDict [(''keyId'', ''k''), (''algorithm'', ''hs2019''),
           (''signature'', ''QUJD'')])
        [''date''])
   = Inl (LibraryError ''QUJD'')
   \<and> b64decode (demo_env (CaseInsensitiveDict [])) ''QUJD'' = Inr ''ABC''
   \<and> HeaderVerifier_verify (demo_env (CaseInsensitiveDict []))
     (demo_object (SignAlgorithm probe_verify) (CaseInsensitiveDict [(''Date'', ''today'')])
        (CaseInsensitiveDict [(''keyId'', ''k''), (''algorithm'', ''hs2019''),
           (''signature'', ''QUJD'')])
        [''date''])
   \<noteq> bind (b64decode (demo_env (CaseInsensitiveDict [])) ''QUJD'')
        (probe_verify ''secret'' ''date: today'')"
  by (simp add: demo_eval probe_verify_def)

text \<open>
  C3, amended. Once the policy test has passed and the canonical string is built, the
  \<open>signature\<close> field is turned into bytes character by character. For the built-in
  \<open>rsa\<close> and \<open>hmac\<close> families the value handed to the cryptographic primitive is the
  base64 decoding of those bytes. A caller-registered implementation is handed the bytes
  of the field themselves, still base64; decoding is left to it.
\<close>

theorem verify_signature_argument:
  assumes "set (required_headers hv) \<subseteq> set (auth_headers hv)"
    and "generate_message E (auth_headers hv) (headers hv) (host hv) (http_method hv) (path hv)
         = Inr msg"
    and "to_bytes msg = Inr d"
    and "auth_dict hv ''signature'' = Some sg"
    and "encode_ascii sg = Inr s"
  shows "s = sg
       \<and> (sign_algorithm hv = AlgName ''rsa'' \<longrightarrow>
            HeaderVerifier_verify E hv =
              bind (hash_of hv d) (\<lambda>h. bind (b64decode E s) (\<lambda>decoded. rsa_verify hv h decoded)))
       \<and> (sign_algorithm hv = AlgName ''hmac'' \<longrightarrow>
            HeaderVerifier_verify E hv =
              bind (sign_hmac hv d) (\<lambda>h. bind (b64decode E s) (\<lambda>decoded.
                ct_bytes_compare E h decoded)))
       \<and> (\<forall>impl. sign_algorithm hv = SignAlgorithm impl \<longrightarrow>
            HeaderVerifier_verify E hv = impl (secret hv) d s)"
  using verify_reaches_dispatch [OF assms] encode_ascii_Inr [OF assms(5)]
  by (simp add: dispatch_def)

text \<open>
  A valid signature under the built-in \<open>hmac\<close> path, and the same wire value given to an
  implementation that expects decoded bytes.
\<close>

theorem verify_signature_argument_witness:
  "HeaderVerifier_verify (demo_env Map.empty)
     (demo_object (AlgName ''hmac'') (CaseInsensitiveDict [(''Date'', ''today'')])
        (CaseInsensitiveDict [(''keyId'', ''k''), (''algorithm'', ''hmac-sha256''),
           (''signature'', ''c2VjcmV0ZGF0ZTogdG9kYXk='')]) [''date''])
   = Inr True
   \<and> b64decode (demo_env Map.empty) ''c2VjcmV0ZGF0ZTogdG9kYXk='' = Inr ''secretdate: today''
   \<and> HeaderVerifier_verify (demo_env Map.empty)
     (demo_object (SignAlgorithm plain_verify) (CaseInsensitiveDict [(''Date'', ''today'')])
        (CaseInsensitiveDict [(''keyId'', ''k''), (''algorithm'', ''hmac-sha256''),
           (''signature'', ''c2VjcmV0ZGF0ZTogdG9kYXk='')]) [''date''])
   = Inr False"
proof -
  let ?sg = "''c2VjcmV0ZGF0ZTogdG9kYXk=''"
  note h = demo_facts [where a = "AlgName ''hmac''" and sg = ?sg]
  note x = demo_facts [where a = "SignAlgorithm plain_verify" and sg = ?sg]
  have e: "encode_ascii ?sg = Inr ?sg"
    by (simp add: encode_ascii_def)
  have b: "b64decode (demo_env Map.empty) ?sg = Inr ''secretdate: today''"
    by (simp add: demo_eval)
  have c: "ct_bytes_compare (demo_env Map.empty) ''secretdate: today'' ''secretdate: today''
           = Inr True"
    by (simp add: demo_env_def)
  from verify_signature_argument [OF h(1) h(2) demo_to_bytes h(3) e] h(4) h(5) b c
  have 1: "HeaderVerifier_verify (demo_env Map.empty)
     (demo_object (AlgName ''hmac'') (CaseInsensitiveDict [(''Date'', ''today'')])
        (CaseInsensitiveDict [(''keyId'', ''k''), (''algorithm'', ''hmac-sha256''),
           (''signature'', ?sg)]) [''date'']) = Inr True"
    by simp
  from verify_signature_argument [OF x(1) x(2) demo_to_bytes x(3) e] x(4) x(6)
  have 2: "HeaderVerifier_verify (demo_env Map.empty)
     (demo_object (SignAlgorithm plain_verify) (CaseInsensitiveDict [(''Date'', ''today'')])
        (CaseInsensitiveDict [(''keyId'', ''k''), (''algorithm'', ''hmac-sha256''),
           (''signature'', ?sg)]) [''date'']) = Inr False"
    by (simp add: plain_verify_def)
  from 1 2 b show ?thesis by simp
qed

text \<open>
  C5. When \<open>sign_algorithm\<close> is neither \<open>'rsa'\<close> nor \<open>'hmac'\<close> nor a registered
  implementation, the verification step raises \<open>HttpSigException("Unsupported
  algorithm.")\<close> on every pair of byte strings, and on text that encodes to them; it
  never returns a boolean.
\<close>

theorem verify_unsupported_algorithm:
  assumes "sign_algorithm v \<noteq> AlgName ''rsa''"
    and "sign_algorithm v \<noteq> AlgName ''hmac''"
    and "\<forall>impl. sign_algorithm v \<noteq> SignAlgorithm impl"
  shows "Verifier_verify E v (Bytes d) (Bytes s) = Inl (HttpSigException ''Unsupported algorithm.'')
       \<and> (to_bytes data = Inr d \<and> to_bytes signature = Inr s \<longrightarrow>
            Verifier_verify E v data signature = Inl (HttpSigException ''Unsupported algorithm.''))
       \<and> (\<forall>b. Verifier_verify E v data signature \<noteq> Inr b)"
proof -
  have "dispatch E v x y = Inl (HttpSigException ''Unsupported algorithm.'')" for x y
    using assms by (simp add: dispatch_def split: sign_alg.splits)
  then show ?thesis
    by (auto simp: Verifier_verify_def bind_Inr_iff)
qed

text \<open>An object whose algorithm is \<open>ecdsa\<close>.\<close>

theorem verify_unsupported_algorithm_witness:
  "sign_algorithm (demo_object (AlgName ''ecdsa'') Map.empty Map.empty []) \<noteq> AlgName ''rsa''
   \<and> sign_algorithm (demo_object (AlgName ''ecdsa'') Map.empty Map.empty []) \<noteq> AlgName ''hmac''
   \<and> Verifier_verify (demo_env Map.empty) (demo_object (AlgName ''ecdsa'') Map.empty Map.empty [])
       (Str ''date: today'') (Str ''QUJD'')
     = Inl (HttpSigException ''Unsupported algorithm.'')"
proof -
  let ?v = "demo_object (AlgName ''ecdsa'') Map.empty Map.empty []"
  have 1: "sign_algorithm ?v \<noteq> AlgName ''rsa''" and 2: "sign_algorithm ?v \<noteq> AlgName ''hmac''"
    and 3: "\<forall>impl. sign_algorithm ?v \<noteq> SignAlgorithm impl"
    by (simp_all add: demo_object_def)
  have t: "to_bytes (Str ''date: today'') = Inr ''date: today''
           \<and> to_bytes (Str ''QUJD'') = Inr ''QUJD''"
    by (simp add: encode_ascii_def)
  from verify_unsupported_algorithm [OF 1 2 3, where data = "Str ''date: today''"
         and d = "''date: today''" and signature = "Str ''QUJD''" and s = "''QUJD''"
         and E = "demo_env Map.empty"] t 1 2
  show ?thesis by simp
qed

text \<open>
  C7, as the specification states it, fails. The policy test passes and the canonical
  string is built, and the signature is wrong: it is a valid signature with its first
  character replaced. It is no longer well-formed base64, and \<open>HeaderVerifier.verify\<close>
  raises the exception of the decoder; it does not return \<open>False\<close>.
\<close>

theorem malformed_signature_raises:
  "set (required_headers
         (demo_object (AlgName ''hmac'') (CaseInsensitiveDict [(''Date'', ''today'')])
            (CaseInsensitiveDict [(''keyId'', ''k''), (''algorithm'', ''hmac-sha256''),
               (''signature'', ''!2VjcmV0ZGF0ZTogdG9kYXk='')]) [''date'']))
     \<subseteq> set (auth_headers
         (demo_object (AlgName ''hmac'') (CaseInsensitiveDict [(''Date'', ''today'')])
            (CaseInsensitiveDict [(''keyId'', ''k''), (''algorithm'', ''hmac-sha256''),
               (''signature'', ''!2VjcmV0ZGF0ZTogdG9kYXk='')]) [''date'']))
   \<and> generate_message (demo_env (CaseInsensitiveDict [])) [''date'']
        (CaseInsensitiveDict [(''Date'', ''today'')]) None None None
     = Inr (Str ''date: today'')
   \<and> HeaderVerifier_verify (demo_env (CaseInsensitiveDict []))
        (demo_object (AlgName ''hmac'') (CaseInsensitiveDict [(''Date'', ''today'')])
            (CaseInsensitiveDict [(''keyId'', ''k''), (''algorithm'', ''hmac-sha256''),
               (''signature'', ''!2VjcmV0ZGF0ZTogdG9kYXk='')]) [''date''])
     = Inl (LibraryError ''Incorrect padding'')
   \<and> HeaderVerifier_verify (demo_env (CaseInsensitiveDict []))
        (demo_object (AlgName ''hmac'') (CaseInsensitiveDict [(''Date'', ''today'')])
            (CaseInsensitiveDict [(''keyId'', ''k''), (''algorithm'', ''hmac-sha256''),
               (''signature'', ''!2VjcmV0ZGF0ZTogdG9kYXk='')]) [''date''])
     \<noteq> Inr False"
  by (simp add: demo_eval)

text \<open>
  C7, amended. When the policy test passes and the canonical string is built,
  \<open>HeaderVerifier.verify\<close> is the outcome of \<open>_verify\<close> on the canonical string and the
  \<open>signature\<close> field, unchanged: a boolean is returned as it is and an exception is
  passed on. On the \<open>hmac\<close> and \<open>rsa\<close> paths a signature field that does not decode
  raises the exception of the decoder; one that decodes gives what the comparison or the
  public-key check reports, so a mismatch reported as \<open>False\<close> is the result \<open>False\<close>.
\<close>

theorem verify_returns_dispatch_result:
  assumes "set (required_headers hv) \<subseteq> set (auth_headers hv)"
    and "generate_message E (auth_headers hv) (headers hv) (host hv) (http_method hv) (path hv)
         = Inr msg"
  shows "HeaderVerifier_verify E hv =
           bind (getitem (auth_dict hv) ''signature'') (\<lambda>sg. Verifier_verify E hv msg (Str sg))
       \<and> (\<forall>sg b. auth_dict hv ''signature'' = Some sg \<and>
                  Verifier_verify E hv msg (Str sg) = Inr b \<longrightarrow>
            HeaderVerifier_verify E hv = Inr b)
       \<and> (\<forall>sg e. auth_dict hv ''signature'' = Some sg \<and>
                  Verifier_verify E hv msg (Str sg) = Inl e \<longrightarrow>
            HeaderVerifier_verify E hv = Inl e)
       \<and> (\<forall>sg d h. auth_dict hv ''signature'' = Some sg \<and> to_bytes msg = Inr d \<and>
                    encode_ascii sg = Inr sg \<longrightarrow>
            (sign_algorithm hv = AlgName ''hmac'' \<and> sign_hmac hv d = Inr h \<longrightarrow>
               HeaderVerifier_verify E hv =
                 (case b64decode E sg of
                    Inl e \<Rightarrow> Inl e
                  | Inr decoded \<Rightarrow> ct_bytes_compare E h decoded))
          \<and> (sign_algorithm hv = AlgName ''rsa'' \<and> hash_of hv d = Inr h \<longrightarrow>
               HeaderVerifier_verify E hv =
                 (case b64decode E sg of
                    Inl e \<Rightarrow> Inl e
                  | Inr decoded \<Rightarrow> rsa_verify hv h decoded)))"
proof (intro conjI allI impI)
  show 1: "HeaderVerifier_verify E hv =
           bind (getitem (auth_dict hv) ''signature'') (\<lambda>sg. Verifier_verify E hv msg (Str sg))"
    by (rule verify_after_policy [OF assms])
  {
    fix sg b
    assume "auth_dict hv ''signature'' = Some sg \<and> Verifier_verify E hv msg (Str sg) = Inr b"
    with 1 show "HeaderVerifier_verify E hv = Inr b" by (simp add: getitem_def)
  }
  {
    fix sg e
    assume "auth_dict hv ''signature'' = Some sg \<and> Verifier_verify E hv msg (Str sg) = Inl e"
    with 1 show "HeaderVerifier_verify E hv = Inl e" by (simp add: getitem_def)
  }
  {
    fix sg d h
    assume a: "auth_dict hv ''signature'' = Some sg \<and> to_bytes msg = Inr d \<and>
                    encode_ascii sg = Inr sg"
    then have r: "HeaderVerifier_verify E hv = dispatch E hv d sg"
      using verify_reaches_dispatch [OF assms, of d sg sg] by simp
    {
      assume "sign_algorithm hv = AlgName ''hmac'' \<and> sign_hmac hv d = Inr h"
      with r show "HeaderVerifier_verify E hv =
                 (case b64decode E sg of
                    Inl e \<Rightarrow> Inl e
                  | Inr decoded \<Rightarrow> ct_bytes_compare E h decoded)"
        by (simp add: dispatch_def bind_def)
    }
    {
      assume "sign_algorithm hv = AlgName ''rsa'' \<and> hash_of hv d = Inr h"
      with r show "HeaderVerifier_verify E hv =
                 (case b64decode E sg of
                    Inl e \<Rightarrow> Inl e
                  | Inr decoded \<Rightarrow> rsa_verify hv h decoded)"
        by (simp add: dispatch_def bind_def)
    }
  }
qed

text \<open>
  A well-formed signature that does not match gives \<open>False\<close>; a truncated one raises.
\<close>

theorem verify_returns_dispatch_result_witness:
  "HeaderVerifier_verify (demo_env Map.empty)
     (demo_object (AlgName ''hmac'') (CaseInsensitiveDict [(''Date'', ''today'')])
        (CaseInsensitiveDict [(''keyId'', ''k''), (''algorithm'', ''hmac-sha256''),
           (''signature'', ''QUJD'')]) [''date''])
   = Inr False
   \<and> ct_bytes_compare (demo_env Map.empty) ''secretdate: today'' ''ABC'' = Inr False
   \<and> HeaderVerifier_verify (demo_env Map.empty)
     (demo_object (AlgName ''hmac'') (CaseInsensitiveDict [(''Date'', ''today'')])
        (CaseInsensitiveDict [(''keyId'', ''k''), (''algorithm'', ''hmac-sha256''),
           (''signature'', ''QUJ'')]) [''date''])
   = Inl (LibraryError ''Incorrect padding'')"
proof -
  note h = demo_facts [where a = "AlgName ''hmac''" and sg = "''QUJD''"]
  note g = demo_facts [where a = "AlgName ''hmac''" and sg = "''QUJ''"]
  have e: "encode_ascii ''QUJD'' = Inr ''QUJD''" "encode_ascii ''QUJ'' = Inr ''QUJ''"
    by (simp_all add: encode_ascii_def)
  have b: "b64decode (demo_env Map.empty) ''QUJD'' = Inr ''ABC''"
    "b64decode (demo_env Map.empty) ''QUJ'' = Inl (LibraryError ''Incorrect padding'')"
    by (simp_all add: demo_eval)
  have c: "ct_bytes_compare (demo_env Map.empty) ''secretdate: today'' ''ABC'' = Inr False"
    by (simp add: demo_env_def)
  from verify_returns_dispatch_result [OF h(1) h(2)] demo_to_bytes h(3) h(4) h(5) e(1)
  have "HeaderVerifier_verify (demo_env Map.empty)
     (demo_object (AlgName ''hmac'') (CaseInsensitiveDict [(''Date'', ''today'')])
        (CaseInsensitiveDict [(''keyId'', ''k''), (''algorithm'', ''hmac-sha256''),
           (''signature'', ''QUJD'')]) [''date''])
     = (case b64decode (demo_env Map.empty) ''QUJD'' of
          Inl e \<Rightarrow> Inl e
        | Inr decoded \<Rightarrow> ct_bytes_compare (demo_env Map.empty) ''secretdate: today'' decoded)"
    by blast
  then have 1: "HeaderVerifier_verify (demo_env Map.empty)
     (demo_object (AlgName ''hmac'') (CaseInsensitiveDict [(''Date'', ''today'')])
        (CaseInsensitiveDict [(''keyId'', ''k''), (''algorithm'', ''hmac-sha256''),
           (''signature'', ''QUJD'')]) [''date'']) = Inr False"
    by (simp add: b(1) c)
  from verify_returns_dispatch_result [OF g(1) g(2)] demo_to_bytes g(3) g(4) g(5) e(2)
  have "HeaderVerifier_verify (demo_env Map.empty)
     (demo_object (AlgName ''hmac'') (CaseInsensitiveDict [(''Date'', ''today'')])
        (CaseInsensitiveDict [(''keyId'', ''k''), (''algorithm'', ''hmac-sha256''),
           (''signature'', ''QUJ'')]) [''date''])
     = (case b64decode (demo_env Map.empty) ''QUJ'' of
          Inl e \<Rightarrow> Inl e
        | Inr decoded \<Rightarrow> ct_bytes_compare (demo_env Map.empty) ''secretdate: today'' decoded)"
    by blast
  then have 2: "HeaderVerifier_verify (demo_env Map.empty)
     (demo_object (AlgName ''hmac'') (CaseInsensitiveDict [(''Date'', ''today'')])
        (CaseInsensitiveDict [(''keyId'', ''k''), (''algorithm'', ''hmac-sha256''),
           (''signature'', ''QUJ'')]) [''date''])
     = Inl (LibraryError ''Incorrect padding'')"
    by (simp add: b(2))
  from 1 2 c show ?thesis by simp
qed

end
